theory Spec2Isabelle
  imports Main
begin

section \<open>The host document\<close>

text \<open>
  The browser's objects are not part of the repository: they are the state the wrapper
  class \<^verbatim>\<open>Dom\<close> of \<^verbatim>\<open>src/Dom.ts\<close> reads and writes. The wrapper has no \<^verbatim>\<open>try\<close> and no
  \<^verbatim>\<open>catch\<close>: an exception of the platform, or of a conversion it calls, leaves the wrapper
  as it was raised.
\<close>

datatype dom_exception = SyntaxError | InvalidCharacterError | InvalidStateError

datatype exception = DOMException dom_exception | TypeError | Thrown string

text \<open>
  An element is the record of what its own properties return. Where the platform decides
  what an assignment does, its decision is a field of the element:
  \<^item> \<open>value_setter s\<close> is the outcome of \<^verbatim>\<open>element.value = s\<close>: the string the \<^verbatim>\<open>value\<close>
    getter returns from then on (the value sanitization of an input, the option selection
    of a select), or the exception the setter raises (a file input);
  \<^item> \<open>innerHTML_setter s\<close> is the outcome of \<^verbatim>\<open>element.innerHTML = s\<close>: the serialisation
    of the fragment parsed from the markup, or the exception of the parser (in an XML
    document);
  \<^item> \<open>attribute_name_ok name\<close> says whether \<^verbatim>\<open>setAttribute\<close> accepts the name.

  The platform also keeps several properties in step with each other (\<^verbatim>\<open>textContent\<close>,
  \<^verbatim>\<open>innerHTML\<close> and \<^verbatim>\<open>children\<close>; reflected content attributes). That coupling is outside
  the model: a statement about a write speaks of the result and of the property written,
  and of nothing else.
\<close>

type_synonym node = nat

record element =
  style_display :: string
  textContent :: string
  value_prop :: string
  value_setter :: "string \<Rightarrow> dom_exception + string"
  innerHTML :: string
  innerHTML_setter :: "string \<Rightarrow> dom_exception + string"
  checked_prop :: bool
  disabled_prop :: bool
  classList :: "string list"
  attributes :: "string \<rightharpoonup> string"
  attribute_name_ok :: "string \<Rightarrow> bool"
  children :: "node list"

subsection \<open>Attributes\<close>

text \<open>
  On an HTML element both \<^verbatim>\<open>getAttribute\<close> and \<^verbatim>\<open>setAttribute\<close> put the name in ASCII
  lower case first. \<^verbatim>\<open>getAttribute\<close> yields \<^verbatim>\<open>null\<close> (\<open>None\<close>) for an attribute that is not
  set; \<^verbatim>\<open>setAttribute\<close> raises \<^verbatim>\<open>InvalidCharacterError\<close> on a name the platform does not
  accept, and sets nothing then.
\<close>

definition ascii_lower_char :: "char \<Rightarrow> char" where
  "ascii_lower_char c =
     (case map_of (zip ''ABCDEFGHIJKLMNOPQRSTUVWXYZ'' ''abcdefghijklmnopqrstuvwxyz'') c of
        None \<Rightarrow> c
      | Some l \<Rightarrow> l)"

definition ascii_lower :: "string \<Rightarrow> string" where
  "ascii_lower name = map ascii_lower_char name"

definition getAttribute :: "element \<Rightarrow> string \<Rightarrow> string option" where
  "getAttribute element name = attributes element (ascii_lower name)"

definition setAttribute :: "element \<Rightarrow> string \<Rightarrow> string \<Rightarrow> dom_exception + element" where
  "setAttribute element name v =
     (if attribute_name_ok element name
      then Inr (element\<lparr>attributes := (attributes element)(ascii_lower name \<mapsto> v)\<rparr>)
      else Inl InvalidCharacterError)"

subsection \<open>The class list\<close>

text \<open>
  The class list is the platform's ordered token set. \<^verbatim>\<open>add\<close> and \<^verbatim>\<open>remove\<close> first check
  every token, in order: the empty string raises \<^verbatim>\<open>SyntaxError\<close>, a token with ASCII
  whitespace raises \<^verbatim>\<open>InvalidCharacterError\<close>, and the list is not touched then.
  \<^verbatim>\<open>contains\<close> checks nothing.
\<close>

definition ascii_whitespace :: "char \<Rightarrow> bool" where
  "ascii_whitespace c = (c \<in> set [CHR 0x09, CHR 0x0A, CHR 0x0C, CHR 0x0D, CHR 0x20])"

definition token_error :: "string \<Rightarrow> dom_exception option" where
  "token_error token =
     (if token = [] then Some SyntaxError
      else if list_ex ascii_whitespace token then Some InvalidCharacterError
      else None)"

fun tokens_error :: "string list \<Rightarrow> dom_exception option" where
  "tokens_error [] = None"
| "tokens_error (token # tokens) =
     (case token_error token of
        Some e \<Rightarrow> Some e
      | None \<Rightarrow> tokens_error tokens)"

definition valid_token :: "string \<Rightarrow> bool" where
  "valid_token token = (token_error token = None)"

definition classList_contains :: "element \<Rightarrow> string \<Rightarrow> bool" where
  "classList_contains element token = (token \<in> set (classList element))"

definition classList_add :: "element \<Rightarrow> string list \<Rightarrow> dom_exception + element" where
  "classList_add element tokens =
     (case tokens_error tokens of
        Some e \<Rightarrow> Inl e
      | None \<Rightarrow>
          Inr (element\<lparr>classList :=
            fold (\<lambda>t cl. if t \<in> set cl then cl else cl @ [t]) tokens (classList element)\<rparr>))"

definition classList_remove :: "element \<Rightarrow> string list \<Rightarrow> dom_exception + element" where
  "classList_remove element tokens =
     (case tokens_error tokens of
        Some e \<Rightarrow> Inl e
      | None \<Rightarrow> Inr (element\<lparr>classList := fold removeAll tokens (classList element)\<rparr>))"

subsection \<open>Collections and documents\<close>

text \<open>
  Indexing a collection, \<^verbatim>\<open>coll[index]\<close>: the item at that position, and \<^verbatim>\<open>undefined\<close>
  (\<open>None\<close>) for an index that is negative or not below the length.
\<close>

definition collection_item :: "'a list \<Rightarrow> int \<Rightarrow> 'a option" where
  "collection_item coll index =
     (if 0 \<le> index \<and> index < int (length coll) then Some (coll ! nat index) else None)"

text \<open>
  A document is the record of what its lookups answer at the time of the call. The
  lookups by id, class name and tag name never raise; the selector lookups raise the
  platform's \<^verbatim>\<open>SyntaxError\<close> on a string that is not a selector.
\<close>

record parent_node =
  querySelector :: "string \<Rightarrow> dom_exception + node option"
  querySelectorAll :: "string \<Rightarrow> dom_exception + node list"

record document = parent_node +
  getElementById :: "string \<Rightarrow> node option"
  getElementsByClassName :: "string \<Rightarrow> node list"
  getElementsByTagName :: "string \<Rightarrow> node list"

section \<open>JavaScript values\<close>

text \<open>
  The wrapper decides between reading and writing by \<^verbatim>\<open>typeof\<close> tests on an optional
  argument, so the argument is a run-time value and not its declared TypeScript type
  (types are erased when the code runs). An optional argument has type \<open>jsval option\<close>:
  \<open>None\<close> is the argument that is omitted or passed as \<^verbatim>\<open>undefined\<close> (the code cannot tell
  the two apart), \<open>Some v\<close> is a defined value. A string is the list of its bytes in UTF-8; the
  tests of the platform that are modelled here (ASCII whitespace, ASCII lower case, line
  breaks) look at ASCII characters only.

  The wrapper looks at a value in two ways only, by \<^verbatim>\<open>typeof\<close> and by \<^verbatim>\<open>String\<close>. Null,
  the booleans, the strings, the BigInts and the Numbers that are safe integers (of
  absolute value below \<open>2^53\<close>, which \<^verbatim>\<open>String\<close> renders as their exact decimal numeral)
  are values of their own. Every other value is \<open>JOther kind convert\<close>, given by its kind
  and by what \<^verbatim>\<open>String\<close> does on it: the other Numbers (fractions, \<^verbatim>\<open>NaN\<close>, the infinities,
  the integers from \<open>2^53\<close> on) and the symbols with the string \<^verbatim>\<open>String\<close> returns, the
  objects and functions with their conversion, which runs the object's own code and so
  may change the element and may throw.
\<close>

typedef safe_int = "{n :: int. - 9007199254740991 \<le> n \<and> n \<le> 9007199254740991}"
  by (rule exI [of _ 0]) simp

datatype value_kind = OtherNumber | SymbolValue | ObjectValue | FunctionValue

datatype jsval =
    JNull
  | JBool bool
  | JNum safe_int
  | JBigInt int
  | JStr string
  | JOther value_kind "element \<Rightarrow> (exception + string) \<times> element"

fun typeof :: "jsval option \<Rightarrow> string" where
  "typeof None = ''undefined''"
| "typeof (Some JNull) = ''object''"
| "typeof (Some (JBool b)) = ''boolean''"
| "typeof (Some (JNum n)) = ''number''"
| "typeof (Some (JBigInt n)) = ''bigint''"
| "typeof (Some (JStr s)) = ''string''"
| "typeof (Some (JOther OtherNumber convert)) = ''number''"
| "typeof (Some (JOther SymbolValue convert)) = ''symbol''"
| "typeof (Some (JOther ObjectValue convert)) = ''object''"
| "typeof (Some (JOther FunctionValue convert)) = ''function''"

definition digit_char :: "nat \<Rightarrow> char" where
  "digit_char d = ''0123456789'' ! (d mod 10)"

fun nat_to_string :: "nat \<Rightarrow> string" where
  "nat_to_string n =
     (if n < 10 then [digit_char n] else nat_to_string (n div 10) @ [digit_char (n mod 10)])"

text \<open>The exact decimal numeral of an integer.\<close>

definition int_to_string :: "int \<Rightarrow> string" where
  "int_to_string i =
     (if i < 0 then CHR ''-'' # nat_to_string (nat (- i)) else nat_to_string (nat i))"

text \<open>
  \<^verbatim>\<open>String(v)\<close> for a defined value, run on the element as it is: the string or the
  exception, and the element as the conversion leaves it.
\<close>

fun js_String :: "jsval \<Rightarrow> element \<Rightarrow> (exception + string) \<times> element" where
  "js_String JNull element = (Inr ''null'', element)"
| "js_String (JBool b) element = (Inr (if b then ''true'' else ''false''), element)"
| "js_String (JNum n) element = (Inr (int_to_string (Rep_safe_int n)), element)"
| "js_String (JBigInt n) element = (Inr (int_to_string n), element)"
| "js_String (JStr s) element = (Inr s, element)"
| "js_String (JOther kind convert) element = convert element"

text \<open>
  \<^verbatim>\<open>x || ""\<close> for a getter \<open>x\<close> that yields a string or \<^verbatim>\<open>null\<close>: the falsy results
  (\<^verbatim>\<open>null\<close> and the empty string) are replaced by the default.
\<close>

fun js_or :: "string option \<Rightarrow> string \<Rightarrow> string" where
  "js_or None d = d"
| "js_or (Some s) d = (if s = [] then d else s)"

section \<open>JavaScript arrays\<close>

text \<open>
  An array is the list of its slots; an empty slot (it reads as \<^verbatim>\<open>undefined\<close>) is \<open>None\<close>.
  \<^verbatim>\<open>new Array(n)\<close> has \<open>n\<close> empty slots, and an assignment beyond the end extends the
  array with empty slots.
\<close>

type_synonym 'a js_array = "'a option list"

definition new_Array :: "nat \<Rightarrow> 'a js_array" where
  "new_Array n = replicate n None"

definition array_set :: "'a js_array \<Rightarrow> nat \<Rightarrow> 'a \<Rightarrow> 'a js_array" where
  "array_set elements i x =
     (if i < length elements then elements[i := Some x]
      else elements @ replicate (i - length elements) None @ [Some x])"

section \<open>Element locator\<close>

definition gebid :: "document \<Rightarrow> string \<Rightarrow> node option" where
  "gebid document ident = getElementById document ident"

text \<open>
  The loop shared by \<^verbatim>\<open>gebcn\<close>, \<^verbatim>\<open>gebtn\<close> and \<^verbatim>\<open>qsAll\<close>:
  \<^verbatim>\<open>for (let i = 0; i < coll.length; i += 1) elements[i] = coll[i]\<close>.
\<close>

function copy_elements :: "node list \<Rightarrow> nat \<Rightarrow> node js_array \<Rightarrow> node js_array" where
  "copy_elements coll i elements =
     (if i < length coll then copy_elements coll (i + 1) (array_set elements i (coll ! i))
      else elements)"
  by pat_completeness auto
termination
  by (relation "measure (\<lambda>(coll, i, elements). length coll - i)") auto

declare copy_elements.simps [simp del]

definition gebcn :: "document \<Rightarrow> string \<Rightarrow> node js_array" where
  "gebcn document className =
     (let elementsByClass = getElementsByClassName document className;
          elements = new_Array (length elementsByClass)
      in copy_elements elementsByClass 0 elements)"

definition gebtn :: "document \<Rightarrow> string \<Rightarrow> node js_array" where
  "gebtn document tagName =
     (let elementsByTag = getElementsByTagName document tagName;
          elements = new_Array (length elementsByTag)
      in copy_elements elementsByTag 0 elements)"

text \<open>
  The search root \<open>parent\<close> is optional and defaults to the document. An exception of
  the platform's lookup leaves the wrapper as it is.
\<close>

definition qs :: "document \<Rightarrow> string \<Rightarrow> parent_node option \<Rightarrow> dom_exception + node option" where
  "qs document selector parent =
     (case parent of
        None \<Rightarrow> querySelector document selector
      | Some p \<Rightarrow> querySelector p selector)"

definition qsAll :: "document \<Rightarrow> string \<Rightarrow> parent_node option \<Rightarrow> dom_exception + node js_array" where
  "qsAll document selector parent =
     (case (case parent of
              None \<Rightarrow> querySelectorAll document selector
            | Some p \<Rightarrow> querySelectorAll p selector) of
        Inl e \<Rightarrow> Inl e
      | Inr nodes \<Rightarrow> Inr (copy_elements nodes 0 (new_Array (length nodes))))"

definition child :: "element \<Rightarrow> int \<Rightarrow> node option" where
  "child element index = collection_item (children element) index"

section \<open>Visibility\<close>

definition show_el :: "element \<Rightarrow> element" where
  "show_el element = element\<lparr>style_display := ''block''\<rparr>"

definition hide :: "element \<Rightarrow> element" where
  "hide element = element\<lparr>style_display := ''none''\<rparr>"

text \<open>
  \<^verbatim>\<open>visible\<close> first writes when \<^verbatim>\<open>typeof isVisible === "boolean"\<close>, then reads the display
  style of the element as it is after that step.
\<close>

definition visible :: "element \<Rightarrow> jsval option \<Rightarrow> bool \<times> element" where
  "visible element isVisible =
     (let element' =
        (case isVisible of
           Some (JBool b) \<Rightarrow> element\<lparr>style_display := (if b then ''block'' else ''none'')\<rparr>
         | _ \<Rightarrow> element)
      in (style_display element' \<noteq> ''none'', element'))"

section \<open>Content and value accessors\<close>

text \<open>
  Each accessor returns its result, or the exception that ends the call, together with
  the element as the call leaves it. The value of an assignment expression is the value
  assigned, whatever the setter stores: \<^verbatim>\<open>text\<close>, \<^verbatim>\<open>value\<close>, \<^verbatim>\<open>innerHtml\<close>, \<^verbatim>\<open>checked\<close> and
  \<^verbatim>\<open>disabled\<close> return that value on a write, and only \<^verbatim>\<open>attribute\<close> reads the element
  again. In \<^verbatim>\<open>element.textContent = String(text)\<close> the conversion runs before the
  assignment. A pattern \<open>Some (JStr s)\<close> is the test \<^verbatim>\<open>typeof x === "string"\<close>,
  \<open>Some (JBool b)\<close> is \<^verbatim>\<open>typeof x === "boolean"\<close> and \<open>None\<close> is \<^verbatim>\<open>typeof x === "undefined"\<close>.
\<close>

definition text_el :: "element \<Rightarrow> jsval option \<Rightarrow> (exception + string) \<times> element" where
  "text_el element text =
     (case text of
        None \<Rightarrow> (Inr (js_or (Some (textContent element)) []), element)
      | Some v \<Rightarrow>
          (case js_String v element of
             (Inl ex, element') \<Rightarrow> (Inl ex, element')
           | (Inr s, element') \<Rightarrow> (Inr s, element'\<lparr>textContent := s\<rparr>)))"

definition value_el :: "element \<Rightarrow> jsval option \<Rightarrow> (exception + string) \<times> element" where
  "value_el element val =
     (case val of
        None \<Rightarrow> (Inr (value_prop element), element)
      | Some v \<Rightarrow>
          (case js_String v element of
             (Inl ex, element') \<Rightarrow> (Inl ex, element')
           | (Inr s, element') \<Rightarrow>
               (case value_setter element' s of
                  Inl d \<Rightarrow> (Inl (DOMException d), element')
                | Inr stored \<Rightarrow> (Inr s, element'\<lparr>value_prop := stored\<rparr>))))"

definition innerHtml :: "element \<Rightarrow> jsval option \<Rightarrow> (exception + string) \<times> element" where
  "innerHtml element html =
     (case html of
        Some (JStr s) \<Rightarrow>
          (case innerHTML_setter element s of
             Inl d \<Rightarrow> (Inl (DOMException d), element)
           | Inr stored \<Rightarrow> (Inr s, element\<lparr>innerHTML := stored\<rparr>))
      | _ \<Rightarrow> (Inr (innerHTML element), element))"

definition checked :: "element \<Rightarrow> jsval option \<Rightarrow> bool \<times> element" where
  "checked element isChecked =
     (case isChecked of
        Some (JBool b) \<Rightarrow> (b, element\<lparr>checked_prop := b\<rparr>)
      | _ \<Rightarrow> (checked_prop element, element))"

definition disabled :: "element \<Rightarrow> jsval option \<Rightarrow> bool \<times> element" where
  "disabled element isDisabled =
     (case isDisabled of
        Some (JBool b) \<Rightarrow> (b, element\<lparr>disabled_prop := b\<rparr>)
      | _ \<Rightarrow> (disabled_prop element, element))"

definition attribute :: "element \<Rightarrow> string \<Rightarrow> jsval option \<Rightarrow> (exception + string) \<times> element" where
  "attribute element name val =
     (case val of
        Some (JStr s) \<Rightarrow>
          (case setAttribute element name s of
             Inl d \<Rightarrow> (Inl (DOMException d), element)
           | Inr element' \<Rightarrow> (Inr (js_or (getAttribute element' name) []), element'))
      | _ \<Rightarrow> (Inr (js_or (getAttribute element name) []), element))"

section \<open>Class list mutation\<close>

text \<open>
  Both operations return nothing; the result is \<open>Inr ()\<close> or the exception, with the
  element as the call leaves it. In \<^verbatim>\<open>swapClass\<close> the removal is done when the addition
  starts, so an exception of the addition leaves the element without the class removed.
\<close>

definition swapClass :: "element \<Rightarrow> string \<Rightarrow> string \<Rightarrow> (exception + unit) \<times> element" where
  "swapClass element classToRemove classToAdd =
     (case classList_remove element [classToRemove] of
        Inl d \<Rightarrow> (Inl (DOMException d), element)
      | Inr element' \<Rightarrow>
          (case classList_add element' [classToAdd] of
             Inl d \<Rightarrow> (Inl (DOMException d), element')
           | Inr element'' \<Rightarrow> (Inr (), element'')))"

definition toggleClass :: "element \<Rightarrow> string \<Rightarrow> (exception + unit) \<times> element" where
  "toggleClass element className =
     (if classList_contains element className
      then (case classList_remove element [className] of
              Inl d \<Rightarrow> (Inl (DOMException d), element)
            | Inr element' \<Rightarrow> (Inr (), element'))
      else (case classList_add element [className] of
              Inl d \<Rightarrow> (Inl (DOMException d), element)
            | Inr element' \<Rightarrow> (Inr (), element')))"

section \<open>Example values, elements and documents\<close>

text \<open>
  The number 42; the number \<open>2^69\<close>, which is no safe integer and which \<^verbatim>\<open>String\<close> renders
  with the seventeen significant digits of the nearest double; the object
  \<^verbatim>\<open>Object.create(null)\<close>, which has no conversion, so that \<^verbatim>\<open>String\<close> throws a \<^verbatim>\<open>TypeError\<close>;
  and an object \<^verbatim>\<open>{ toString() { throw "no" } }\<close>.
\<close>

definition number_42 :: jsval where
  "number_42 = JNum (Abs_safe_int 42)"

definition number_2_pow_69 :: jsval where
  "number_2_pow_69 = JOther OtherNumber (\<lambda>element. (Inr ''590295810358705700000'', element))"

definition null_prototype_object :: jsval where
  "null_prototype_object = JOther ObjectValue (\<lambda>element. (Inl TypeError, element))"

definition throwing_object :: jsval where
  "throwing_object = JOther ObjectValue (\<lambda>element. (Inl (Thrown ''no''), element))"

text \<open>
  The names \<^verbatim>\<open>setAttribute\<close> accepts, by the DOM standard: not empty, and without ASCII
  whitespace, NUL, \<^verbatim>\<open>/\<close>, \<^verbatim>\<open>=\<close> and \<^verbatim>\<open>>\<close>.
\<close>

definition valid_attribute_local_name :: "string \<Rightarrow> bool" where
  "valid_attribute_local_name name =
     (name \<noteq> [] \<and>
      \<not> list_ex (\<lambda>c. ascii_whitespace c \<or> c \<in> set [CHR 0x00, CHR ''/'', CHR ''='', CHR ''>''])
          name)"

text \<open>
  A text input \<^verbatim>\<open><input type="text" class="a b" data-x="1" value="hi">\<close>: the value
  sanitization of a text input strips the line breaks of the assigned string. No markup is
  assigned to the example elements, so their \<open>innerHTML_setter\<close> is never applied.
\<close>

definition example_input :: element where
  "example_input =
     \<lparr>style_display = [], textContent = [], value_prop = ''hi'',
      value_setter = (\<lambda>s. Inr (filter (\<lambda>c. c \<noteq> CHR 0x0A \<and> c \<noteq> CHR 0x0D) s)),
      innerHTML = [], innerHTML_setter = (\<lambda>s. Inr s),
      checked_prop = False, disabled_prop = False,
      classList = [''a'', ''b''], attributes = [''data-x'' \<mapsto> ''1''],
      attribute_name_ok = valid_attribute_local_name, children = []\<rparr>"

text \<open>
  A select \<^verbatim>\<open><select><option>a</option><option>b</option></select>\<close> with the first
  option selected: assigning a string selects the option of that value, and when no option
  has it nothing is selected and the getter returns the empty string.
\<close>

definition example_select :: element where
  "example_select =
     \<lparr>style_display = [], textContent = ''ab'', value_prop = ''a'',
      value_setter = (\<lambda>s. Inr (if s \<in> set [''a'', ''b''] then s else [])),
      innerHTML = ''<option>a</option><option>b</option>'', innerHTML_setter = (\<lambda>s. Inr s),
      checked_prop = False, disabled_prop = False,
      classList = [], attributes = Map.empty,
      attribute_name_ok = valid_attribute_local_name, children = [1, 2]\<rparr>"

text \<open>
  A file input \<^verbatim>\<open><input type="file">\<close>: its \<^verbatim>\<open>value\<close> setter accepts the empty string only
  and raises \<^verbatim>\<open>InvalidStateError\<close> on any other.
\<close>

definition example_file_input :: element where
  "example_file_input =
     \<lparr>style_display = [], textContent = [], value_prop = [],
      value_setter = (\<lambda>s. if s = [] then Inr [] else Inl InvalidStateError),
      innerHTML = [], innerHTML_setter = (\<lambda>s. Inr s),
      checked_prop = False, disabled_prop = False,
      classList = [], attributes = [''type'' \<mapsto> ''file''],
      attribute_name_ok = valid_attribute_local_name, children = []\<rparr>"

text \<open>
  The answers of a document \<^verbatim>\<open><div id="main"><p class="x"></p><p class="x"></p></div>\<close>
  (the nodes \<open>0\<close>, \<open>1\<close>, \<open>2\<close> in tree order) to the lookups used below. The empty string is
  not a selector.
\<close>

definition example_document :: document where
  "example_document =
     \<lparr>querySelector =
        (\<lambda>s. if s = [] then Inl SyntaxError else if s = ''.x'' then Inr (Some 1) else Inr None),
      querySelectorAll =
        (\<lambda>s. if s = [] then Inl SyntaxError else if s = ''.x'' then Inr [1, 2] else Inr []),
      getElementById = (\<lambda>i. if i = ''main'' then Some 0 else None),
      getElementsByClassName = (\<lambda>c. if c = ''x'' then [1, 2] else []),
      getElementsByTagName =
        (\<lambda>t. if t = ''p'' then [1, 2] else if t = ''div'' then [0] else [])\<rparr>"

section \<open>Auxiliary facts\<close>

subsection \<open>Values: the \<^verbatim>\<open>typeof\<close> tests and \<^verbatim>\<open>String\<close>\<close>

lemma typeof_undefined_iff: "(typeof x = ''undefined'') = (x = None)"
  by (cases x rule: typeof.cases) simp_all

lemma typeof_string_iff: "(typeof x = ''string'') = (\<exists>s. x = Some (JStr s))"
  by (cases x rule: typeof.cases) simp_all

lemma typeof_boolean_iff: "(typeof x = ''boolean'') = (\<exists>b. x = Some (JBool b))"
  by (cases x rule: typeof.cases) simp_all

lemma int_to_string_42: "int_to_string 42 = ''42''"
  by (simp add: int_to_string_def digit_char_def)

lemma Rep_safe_int_42: "Rep_safe_int (Abs_safe_int 42) = 42"
  by (simp add: Abs_safe_int_inverse)

lemma js_String_number_42: "js_String number_42 el = (Inr ''42'', el)"
  by (simp add: number_42_def Rep_safe_int_42 int_to_string_42)

lemma js_String_primitive:
  "\<forall>kind convert. v \<noteq> JOther kind convert \<Longrightarrow> \<exists>s. js_String v el = (Inr s, el)"
  by (cases v) simp_all

subsection \<open>The copy loop\<close>

text \<open>
  Started at \<open>i\<close> on an array as long as the collection, the loop keeps the slots below
  \<open>i\<close> and fills every slot from \<open>i\<close> on with the item of the collection at that index.
\<close>

lemma copy_elements_spec:
  "i \<le> length coll \<Longrightarrow> length elements = length coll \<Longrightarrow>
   copy_elements coll i elements = take i elements @ map Some (drop i coll)"
proof (induction coll i elements rule: copy_elements.induct)
  case (1 coll i elements)
  show ?case
  proof (cases "i < length coll")
    case True
    let ?els = "array_set elements i (coll ! i)"
    from True 1(3) have els: "?els = elements[i := Some (coll ! i)]"
      by (simp add: array_set_def)
    have "copy_elements coll i elements = copy_elements coll (i + 1) ?els"
      using True by (subst copy_elements.simps) simp
    also have "\<dots> = take (i + 1) ?els @ map Some (drop (i + 1) coll)"
      using 1(1) [OF True] True 1(3) els by simp
    also have "take (i + 1) ?els = take i elements @ [Some (coll ! i)]"
      using True 1(3) els by (simp add: take_Suc_conv_app_nth)
    also have "(take i elements @ [Some (coll ! i)]) @ map Some (drop (i + 1) coll)
        = take i elements @ map Some (drop i coll)"
      using True by (simp add: Cons_nth_drop_Suc [symmetric])
    finally show ?thesis .
  next
    case False
    with 1(2) have "i = length coll" by simp
    then show ?thesis
      using 1(3) by (subst copy_elements.simps) simp
  qed
qed

lemma copy_elements_new_Array:
  "copy_elements coll 0 (new_Array (length coll)) = map Some coll"
  using copy_elements_spec [of 0 coll "new_Array (length coll)"]
  by (simp add: new_Array_def)

lemma gebcn_eq: "gebcn d c = map Some (getElementsByClassName d c)"
  by (simp add: gebcn_def Let_def copy_elements_new_Array)

lemma gebtn_eq: "gebtn d t = map Some (getElementsByTagName d t)"
  by (simp add: gebtn_def Let_def copy_elements_new_Array)

lemma qsAll_document_eq:
  "qsAll d sel None =
     (case querySelectorAll d sel of Inl e \<Rightarrow> Inl e | Inr nodes \<Rightarrow> Inr (map Some nodes))"
  by (simp add: qsAll_def copy_elements_new_Array split: sum.splits)

lemma qsAll_parent_eq:
  "qsAll d sel (Some p) =
     (case querySelectorAll p sel of Inl e \<Rightarrow> Inl e | Inr nodes \<Rightarrow> Inr (map Some nodes))"
  by (simp add: qsAll_def copy_elements_new_Array split: sum.splits)

lemma child_None_iff:
  "(child el i = None) = (i < 0 \<or> int (length (children el)) \<le> i)"
  by (auto simp: child_def collection_item_def)

lemma child_in_range:
  "0 \<le> i \<Longrightarrow> i < int (length (children el)) \<Longrightarrow> child el i = Some (children el ! nat i)"
  by (simp add: child_def collection_item_def)

subsection \<open>The accessors, branch by branch\<close>

lemma text_el_read: "text_el el None = (Inr (textContent el), el)"
  by (simp add: text_el_def)

lemma text_el_returns:
  "js_String v el = (Inr s, el') \<Longrightarrow> text_el el (Some v) = (Inr s, el'\<lparr>textContent := s\<rparr>)"
  by (simp add: text_el_def)

lemma text_el_raises:
  "js_String v el = (Inl ex, el') \<Longrightarrow> text_el el (Some v) = (Inl ex, el')"
  by (simp add: text_el_def)

lemma value_el_read: "value_el el None = (Inr (value_prop el), el)"
  by (simp add: value_el_def)

lemma value_el_returns:
  "js_String v el = (Inr s, el') \<Longrightarrow> value_setter el' s = Inr stored \<Longrightarrow>
   value_el el (Some v) = (Inr s, el'\<lparr>value_prop := stored\<rparr>)"
  by (simp add: value_el_def)

lemma value_el_setter_raises:
  "js_String v el = (Inr s, el') \<Longrightarrow> value_setter el' s = Inl d \<Longrightarrow>
   value_el el (Some v) = (Inl (DOMException d), el')"
  by (simp add: value_el_def)

lemma value_el_raises:
  "js_String v el = (Inl ex, el') \<Longrightarrow> value_el el (Some v) = (Inl ex, el')"
  by (simp add: value_el_def)

lemma innerHtml_read: "innerHtml el None = (Inr (innerHTML el), el)"
  by (simp add: innerHtml_def)

lemma innerHtml_other:
  "typeof (Some x) \<noteq> ''string'' \<Longrightarrow> innerHtml el (Some x) = (Inr (innerHTML el), el)"
  by (cases x) (simp_all add: innerHtml_def)

lemma innerHtml_returns:
  "innerHTML_setter el h = Inr parsed \<Longrightarrow>
   innerHtml el (Some (JStr h)) = (Inr h, el\<lparr>innerHTML := parsed\<rparr>)"
  by (simp add: innerHtml_def)

lemma innerHtml_raises:
  "innerHTML_setter el h = Inl d \<Longrightarrow>
   innerHtml el (Some (JStr h)) = (Inl (DOMException d), el)"
  by (simp add: innerHtml_def)

lemma checked_read: "checked el None = (checked_prop el, el)"
  by (simp add: checked_def)

lemma checked_write: "checked el (Some (JBool b)) = (b, el\<lparr>checked_prop := b\<rparr>)"
  by (simp add: checked_def)

lemma checked_other:
  "typeof (Some x) \<noteq> ''boolean'' \<Longrightarrow> checked el (Some x) = (checked_prop el, el)"
  by (cases x) (simp_all add: checked_def)

lemma disabled_read: "disabled el None = (disabled_prop el, el)"
  by (simp add: disabled_def)

lemma disabled_write: "disabled el (Some (JBool b)) = (b, el\<lparr>disabled_prop := b\<rparr>)"
  by (simp add: disabled_def)

lemma disabled_other:
  "typeof (Some x) \<noteq> ''boolean'' \<Longrightarrow> disabled el (Some x) = (disabled_prop el, el)"
  by (cases x) (simp_all add: disabled_def)

lemma attribute_read: "attribute el name None = (Inr (js_or (getAttribute el name) []), el)"
  by (simp add: attribute_def)

lemma attribute_other:
  "typeof (Some x) \<noteq> ''string'' \<Longrightarrow>
   attribute el name (Some x) = (Inr (js_or (getAttribute el name) []), el)"
  by (cases x) (simp_all add: attribute_def)

lemma attribute_accepted:
  "attribute_name_ok el name \<Longrightarrow>
   attribute el name (Some (JStr a)) =
     (Inr a, el\<lparr>attributes := (attributes el)(ascii_lower name \<mapsto> a)\<rparr>)"
  by (simp add: attribute_def setAttribute_def getAttribute_def)

lemma attribute_result_accepted:
  "attribute_name_ok el name \<Longrightarrow> fst (attribute el name (Some (JStr a))) = Inr a"
  by (simp add: attribute_accepted)

lemma attribute_rejected:
  "\<not> attribute_name_ok el name \<Longrightarrow>
   attribute el name (Some (JStr a)) = (Inl (DOMException InvalidCharacterError), el)"
  by (simp add: attribute_def setAttribute_def)

lemma attribute_read_after_accepted:
  "attribute_name_ok el name \<Longrightarrow>
   attribute (snd (attribute el name (Some (JStr a)))) name None =
     (Inr a, snd (attribute el name (Some (JStr a))))"
  by (simp add: attribute_accepted attribute_read getAttribute_def)

lemma getAttribute_after_accepted:
  "attribute_name_ok el name \<Longrightarrow>
   getAttribute (snd (attribute el name (Some (JStr a)))) name = Some a"
  by (simp add: attribute_accepted getAttribute_def)

subsection \<open>The class list operations on one token\<close>

lemma tokens_error_single: "tokens_error [token] = token_error token"
  by (simp split: option.splits)

lemma classList_add_valid:
  "valid_token c \<Longrightarrow>
   classList_add el [c] =
     Inr (el\<lparr>classList := (if c \<in> set (classList el) then classList el else classList el @ [c])\<rparr>)"
  by (simp add: classList_add_def valid_token_def tokens_error_single)

lemma classList_remove_valid:
  "valid_token c \<Longrightarrow>
   classList_remove el [c] = Inr (el\<lparr>classList := removeAll c (classList el)\<rparr>)"
  by (simp add: classList_remove_def valid_token_def tokens_error_single)

lemma classList_add_rejected:
  "token_error c = Some e \<Longrightarrow> classList_add el [c] = Inl e"
  by (simp add: classList_add_def tokens_error_single)

lemma classList_remove_rejected:
  "token_error c = Some e \<Longrightarrow> classList_remove el [c] = Inl e"
  by (simp add: classList_remove_def tokens_error_single)

lemma toggleClass_valid:
  "valid_token c \<Longrightarrow>
   toggleClass el c =
     (Inr (), el\<lparr>classList :=
        (if c \<in> set (classList el) then removeAll c (classList el) else classList el @ [c])\<rparr>)"
  by (simp add: toggleClass_def classList_contains_def classList_add_valid classList_remove_valid)

lemma toggleClass_rejected:
  "token_error c = Some e \<Longrightarrow> toggleClass el c = (Inl (DOMException e), el)"
  by (simp add: toggleClass_def classList_add_rejected classList_remove_rejected)

lemma swapClass_valid:
  "valid_token old \<Longrightarrow> valid_token new \<Longrightarrow>
   swapClass el old new =
     (Inr (), el\<lparr>classList :=
        (if new \<in> set (removeAll old (classList el)) then removeAll old (classList el)
         else removeAll old (classList el) @ [new])\<rparr>)"
  by (simp add: swapClass_def classList_add_valid classList_remove_valid)

lemma swapClass_new_rejected:
  "valid_token old \<Longrightarrow> token_error new = Some e \<Longrightarrow>
   swapClass el old new = (Inl (DOMException e), el\<lparr>classList := removeAll old (classList el)\<rparr>)"
  by (simp add: swapClass_def classList_add_rejected classList_remove_valid)

lemma swapClass_old_rejected:
  "token_error old = Some e \<Longrightarrow> swapClass el old new = (Inl (DOMException e), el)"
  by (simp add: swapClass_def classList_remove_rejected)

lemma valid_token_a: "valid_token ''a''" "valid_token ''c''"
  by (simp_all add: valid_token_def token_error_def ascii_whitespace_def)

lemma token_error_examples: "token_error [] = Some SyntaxError"
  "token_error ''a b'' = Some InvalidCharacterError"
  by (simp_all add: token_error_def ascii_whitespace_def)

lemma not_valid_iff: "(\<not> valid_token c) = (\<exists>e. token_error c = Some e)"
  by (simp add: valid_token_def)

lemma name_ok_examples:
  "attribute_name_ok example_input ''data-y''" "\<not> attribute_name_ok example_input []"
  "ascii_lower ''data-y'' = ''data-y''" "ascii_lower ''data-x'' = ''data-x''"
  "ascii_lower ''Data-X'' = ''data-x''"
  by (simp_all add: example_input_def valid_attribute_local_name_def ascii_whitespace_def
      ascii_lower_def ascii_lower_char_def)

section \<open>Properties\<close>

text \<open>
  C1. With the new-value argument omitted, each of \<open>text\<close>, \<open>value\<close>, \<open>innerHtml\<close>,
  \<open>checked\<close>, \<open>disabled\<close> and \<open>attribute\<close> is a pure read: it returns the current value and
  the element is unchanged. A supplied argument that fails the accessor's \<^verbatim>\<open>typeof\<close> test
  (a string for \<open>innerHtml\<close> and \<open>attribute\<close>, a boolean for \<open>checked\<close> and \<open>disabled\<close>) is
  not written: the call is a pure read too. Otherwise the call writes and returns the
  value written, unless an exception ends it:
  \<^item> \<open>text\<close> and \<open>value\<close> take any defined value and run \<^verbatim>\<open>String\<close> on it. When it returns
    a string, \<open>text\<close> returns it, the text content is that string and the read that follows
    returns it; \<open>value\<close> hands it to the control's setter and returns it, while the
    control holds, and the read that follows returns, what the setter made of it. When
    \<^verbatim>\<open>String\<close> throws, or the control's setter raises, the call raises and writes nothing.
  \<^item> \<open>innerHtml\<close> with a string returns that string, while the element holds the
    serialisation of what the platform parsed; if the platform's setter raises, so does
    the call.
  \<^item> \<open>checked\<close> and \<open>disabled\<close> with a boolean return it, the property has that value and
    the read that follows returns it.
  \<^item> \<open>attribute\<close> with a string and a name that \<^verbatim>\<open>setAttribute\<close> accepts returns the string,
    which is the attribute's value read back; with a name it rejects the call raises
    \<^verbatim>\<open>InvalidCharacterError\<close> and sets nothing.
\<close>

theorem accessors_read_and_write:
  "text_el el None = (Inr (textContent el), el)
   \<and> value_el el None = (Inr (value_prop el), el)
   \<and> innerHtml el None = (Inr (innerHTML el), el)
   \<and> checked el None = (checked_prop el, el)
   \<and> disabled el None = (disabled_prop el, el)
   \<and> attribute el name None = (Inr (js_or (getAttribute el name) []), el)
   \<and> (typeof (Some x) \<noteq> ''string'' \<longrightarrow>
        innerHtml el (Some x) = (Inr (innerHTML el), el)
        \<and> attribute el name (Some x) = (Inr (js_or (getAttribute el name) []), el))
   \<and> (typeof (Some x) \<noteq> ''boolean'' \<longrightarrow>
        checked el (Some x) = (checked_prop el, el)
        \<and> disabled el (Some x) = (disabled_prop el, el))
   \<and> (js_String v el = (Inr s, el') \<longrightarrow>
        fst (text_el el (Some v)) = Inr s
        \<and> textContent (snd (text_el el (Some v))) = s
        \<and> fst (text_el (snd (text_el el (Some v))) None) = Inr s)
   \<and> (js_String v el = (Inr s, el') \<and> value_setter el' s = Inr stored \<longrightarrow>
        fst (value_el el (Some v)) = Inr s
        \<and> value_prop (snd (value_el el (Some v))) = stored
        \<and> fst (value_el (snd (value_el el (Some v))) None) = Inr stored)
   \<and> (js_String v el = (Inr s, el') \<and> value_setter el' s = Inl d \<longrightarrow>
        value_el el (Some v) = (Inl (DOMException d), el'))
   \<and> (js_String v el = (Inl ex, el') \<longrightarrow>
        text_el el (Some v) = (Inl ex, el') \<and> value_el el (Some v) = (Inl ex, el'))
   \<and> (innerHTML_setter el h = Inr parsed \<longrightarrow>
        fst (innerHtml el (Some (JStr h))) = Inr h
        \<and> innerHTML (snd (innerHtml el (Some (JStr h)))) = parsed
        \<and> fst (innerHtml (snd (innerHtml el (Some (JStr h)))) None) = Inr parsed)
   \<and> (innerHTML_setter el h = Inl d \<longrightarrow>
        innerHtml el (Some (JStr h)) = (Inl (DOMException d), el))
   \<and> fst (checked el (Some (JBool b))) = b
   \<and> checked_prop (snd (checked el (Some (JBool b)))) = b
   \<and> fst (checked (snd (checked el (Some (JBool b)))) None) = b
   \<and> fst (disabled el (Some (JBool b))) = b
   \<and> disabled_prop (snd (disabled el (Some (JBool b)))) = b
   \<and> fst (disabled (snd (disabled el (Some (JBool b)))) None) = b
   \<and> (attribute_name_ok el name \<longrightarrow>
        fst (attribute el name (Some (JStr a))) = Inr a
        \<and> getAttribute (snd (attribute el name (Some (JStr a)))) name = Some a
        \<and> fst (attribute (snd (attribute el name (Some (JStr a)))) name None) = Inr a)
   \<and> (\<not> attribute_name_ok el name \<longrightarrow>
        attribute el name (Some (JStr a)) = (Inl (DOMException InvalidCharacterError), el))"
proof -
  have reads: "text_el el None = (Inr (textContent el), el)"
    "value_el el None = (Inr (value_prop el), el)"
    "innerHtml el None = (Inr (innerHTML el), el)"
    "checked el None = (checked_prop el, el)"
    "disabled el None = (disabled_prop el, el)"
    "attribute el name None = (Inr (js_or (getAttribute el name) []), el)"
    by (rule text_el_read value_el_read innerHtml_read checked_read disabled_read
        attribute_read)+
  have guards: "typeof (Some x) \<noteq> ''string'' \<longrightarrow>
        innerHtml el (Some x) = (Inr (innerHTML el), el)
        \<and> attribute el name (Some x) = (Inr (js_or (getAttribute el name) []), el)"
    "typeof (Some x) \<noteq> ''boolean'' \<longrightarrow>
        checked el (Some x) = (checked_prop el, el)
        \<and> disabled el (Some x) = (disabled_prop el, el)"
    by (simp_all add: innerHtml_other attribute_other checked_other disabled_other)
  have text_write: "js_String v el = (Inr s, el') \<longrightarrow>
        fst (text_el el (Some v)) = Inr s
        \<and> textContent (snd (text_el el (Some v))) = s
        \<and> fst (text_el (snd (text_el el (Some v))) None) = Inr s"
    by (simp add: text_el_returns text_el_read)
  have value_write: "js_String v el = (Inr s, el') \<and> value_setter el' s = Inr stored \<longrightarrow>
        fst (value_el el (Some v)) = Inr s
        \<and> value_prop (snd (value_el el (Some v))) = stored
        \<and> fst (value_el (snd (value_el el (Some v))) None) = Inr stored"
    "js_String v el = (Inr s, el') \<and> value_setter el' s = Inl d \<longrightarrow>
        value_el el (Some v) = (Inl (DOMException d), el')"
    by (simp_all add: value_el_returns value_el_setter_raises value_el_read)
  have raises: "js_String v el = (Inl ex, el') \<longrightarrow>
        text_el el (Some v) = (Inl ex, el') \<and> value_el el (Some v) = (Inl ex, el')"
    by (simp add: text_el_raises value_el_raises)
  have html_write: "innerHTML_setter el h = Inr parsed \<longrightarrow>
        fst (innerHtml el (Some (JStr h))) = Inr h
        \<and> innerHTML (snd (innerHtml el (Some (JStr h)))) = parsed
        \<and> fst (innerHtml (snd (innerHtml el (Some (JStr h)))) None) = Inr parsed"
    "innerHTML_setter el h = Inl d \<longrightarrow>
        innerHtml el (Some (JStr h)) = (Inl (DOMException d), el)"
    by (simp_all add: innerHtml_returns innerHtml_raises innerHtml_read)
  have flags: "fst (checked el (Some (JBool b))) = b"
    "checked_prop (snd (checked el (Some (JBool b)))) = b"
    "fst (checked (snd (checked el (Some (JBool b)))) None) = b"
    "fst (disabled el (Some (JBool b))) = b"
    "disabled_prop (snd (disabled el (Some (JBool b)))) = b"
    "fst (disabled (snd (disabled el (Some (JBool b)))) None) = b"
    by (simp_all add: checked_write checked_read disabled_write disabled_read)
  have attr_write: "attribute_name_ok el name \<longrightarrow>
        fst (attribute el name (Some (JStr a))) = Inr a
        \<and> getAttribute (snd (attribute el name (Some (JStr a)))) name = Some a
        \<and> fst (attribute (snd (attribute el name (Some (JStr a)))) name None) = Inr a"
    "\<not> attribute_name_ok el name \<longrightarrow>
        attribute el name (Some (JStr a)) = (Inl (DOMException InvalidCharacterError), el)"
    by (simp_all add: attribute_result_accepted attribute_rejected
        attribute_read_after_accepted getAttribute_after_accepted)
  from reads guards text_write value_write raises html_write flags attr_write
  show ?thesis by (intro conjI)
qed

text \<open>
  On the text input with the number 42, a markup string and the attribute \<open>data-y\<close>; with
  an object that has no conversion; on the file input with a string; and with the empty
  attribute name.
\<close>

theorem accessors_read_and_write_witness:
  "typeof (Some number_42) \<noteq> ''string''
   \<and> typeof (Some number_42) \<noteq> ''boolean''
   \<and> innerHtml example_input (Some number_42) = (Inr (innerHTML example_input), example_input)
   \<and> attribute example_input ''data-x'' (Some number_42) = (Inr ''1'', example_input)
   \<and> checked example_input (Some number_42) = (False, example_input)
   \<and> disabled example_input (Some number_42) = (False, example_input)
   \<and> js_String number_42 example_input = (Inr ''42'', example_input)
   \<and> value_setter example_input ''42'' = Inr ''42''
   \<and> fst (text_el example_input (Some number_42)) = Inr ''42''
   \<and> textContent (snd (text_el example_input (Some number_42))) = ''42''
   \<and> fst (value_el example_input (Some number_42)) = Inr ''42''
   \<and> value_prop (snd (value_el example_input (Some number_42))) = ''42''
   \<and> innerHTML_setter example_input ''<b>x</b>'' = Inr ''<b>x</b>''
   \<and> fst (innerHtml example_input (Some (JStr ''<b>x</b>''))) = Inr ''<b>x</b>''
   \<and> attribute_name_ok example_input ''data-y''
   \<and> fst (attribute example_input ''data-y'' (Some (JStr ''v''))) = Inr ''v''
   \<and> js_String null_prototype_object example_input = (Inl TypeError, example_input)
   \<and> text_el example_input (Some null_prototype_object) = (Inl TypeError, example_input)
   \<and> js_String (JStr ''x'') example_file_input = (Inr ''x'', example_file_input)
   \<and> value_setter example_file_input ''x'' = Inl InvalidStateError
   \<and> value_el example_file_input (Some (JStr ''x''))
       = (Inl (DOMException InvalidStateError), example_file_input)
   \<and> \<not> attribute_name_ok example_input []
   \<and> attribute example_input [] (Some (JStr ''v''))
       = (Inl (DOMException InvalidCharacterError), example_input)"
proof -
  have kinds: "typeof (Some number_42) \<noteq> ''string''" "typeof (Some number_42) \<noteq> ''boolean''"
    by (simp_all add: number_42_def)
  have props: "getAttribute example_input ''data-x'' = Some ''1''"
    "checked_prop example_input = False" "disabled_prop example_input = False"
    by (simp_all add: getAttribute_def example_input_def name_ok_examples)
  have conversions: "js_String number_42 example_input = (Inr ''42'', example_input)"
    "js_String null_prototype_object example_input = (Inl TypeError, example_input)"
    "js_String (JStr ''x'') example_file_input = (Inr ''x'', example_file_input)"
    by (simp_all add: js_String_number_42 null_prototype_object_def)
  have setters: "value_setter example_input ''42'' = Inr ''42''"
    "innerHTML_setter example_input ''<b>x</b>'' = Inr ''<b>x</b>''"
    "value_setter example_file_input ''x'' = Inl InvalidStateError"
    by (simp_all add: example_input_def example_file_input_def)
  note names = name_ok_examples(1,2)
  show ?thesis
    using kinds props conversions setters names
      accessors_read_and_write [where el = example_input and name = "''data-x''"
        and x = number_42 and v = number_42 and s = "''42''" and el' = example_input
        and stored = "''42''" and h = "''<b>x</b>''" and parsed = "''<b>x</b>''"]
      accessors_read_and_write [where el = example_input and name = "''data-y''"
        and a = "''v''" and v = null_prototype_object and ex = TypeError
        and el' = example_input]
      accessors_read_and_write [where el = example_file_input and v = "JStr ''x''"
        and s = "''x''" and el' = example_file_input and d = InvalidStateError]
      accessors_read_and_write [where el = example_input and name = "[]" and a = "''v''"]
    by simp
qed

text \<open>
  The statement that every supplied argument is written and that the result is the value
  read back afterwards fails twice. \<open>innerHtml\<close> with the number 42 supplied leaves the
  element as it was, and its markup is not the numeral. \<open>value\<close> on the select with the
  string \<open>c\<close>, which no option has, returns \<open>c\<close>, and the read that follows returns the
  empty string.
\<close>

theorem accessor_supplied_argument_counterexample:
  "innerHtml example_input (Some number_42) = (Inr (innerHTML example_input), example_input)
   \<and> js_String number_42 example_input = (Inr ''42'', example_input)
   \<and> innerHTML example_input \<noteq> ''42''
   \<and> fst (value_el example_select (Some (JStr ''c''))) = Inr ''c''
   \<and> fst (value_el (snd (value_el example_select (Some (JStr ''c'')))) None) = Inr []"
proof -
  have not_string: "typeof (Some number_42) \<noteq> ''string''"
    by (simp add: number_42_def)
  have markup: "innerHTML example_input \<noteq> ''42''"
    by (simp add: example_input_def)
  have select: "fst (value_el example_select (Some (JStr ''c''))) = Inr ''c''"
    "fst (value_el (snd (value_el example_select (Some (JStr ''c'')))) None) = Inr []"
    by (simp_all add: value_el_def example_select_def)
  show ?thesis
    using innerHtml_other [OF not_string] markup select
    by (simp add: js_String_number_42)
qed

text \<open>
  C2. \<open>gebcn\<close>, \<open>gebtn\<close> and \<open>qsAll\<close> return an array with one filled slot for each item of
  the collection matched in the document of the call, in the collection's order: the same
  length, no empty slot, and the empty array exactly when nothing matches. The result is a
  list of nodes and not a view of the document, so no later document occurs in it. When
  the platform rejects the selector there is no collection, and \<open>qsAll\<close> passes the
  exception on.
\<close>

theorem lookups_copy_collection:
  "gebcn d c = map Some (getElementsByClassName d c)
   \<and> length (gebcn d c) = length (getElementsByClassName d c)
   \<and> (gebcn d c = []) = (getElementsByClassName d c = [])
   \<and> gebtn d t = map Some (getElementsByTagName d t)
   \<and> length (gebtn d t) = length (getElementsByTagName d t)
   \<and> (gebtn d t = []) = (getElementsByTagName d t = [])
   \<and> qsAll d sel None =
       (case querySelectorAll d sel of Inl e \<Rightarrow> Inl e | Inr nodes \<Rightarrow> Inr (map Some nodes))
   \<and> qsAll d sel (Some p) =
       (case querySelectorAll p sel of Inl e \<Rightarrow> Inl e | Inr nodes \<Rightarrow> Inr (map Some nodes))"
  by (simp add: gebcn_eq gebtn_eq qsAll_document_eq qsAll_parent_eq)

text \<open>
  On the example document: two nodes of class \<open>x\<close>, none of class \<open>y\<close>.
\<close>

theorem lookups_copy_collection_witness:
  "gebcn example_document ''x'' = [Some 1, Some 2]
   \<and> length (gebcn example_document ''x'') = 2
   \<and> gebcn example_document ''y'' = []
   \<and> gebtn example_document ''div'' = [Some 0]
   \<and> qsAll example_document ''.x'' None = Inr [Some 1, Some 2]
   \<and> qsAll example_document ''.y'' None = Inr []"
proof -
  have answers: "getElementsByClassName example_document ''x'' = [1, 2]"
    "getElementsByClassName example_document ''y'' = []"
    "getElementsByTagName example_document ''div'' = [0]"
    "querySelectorAll example_document ''.x'' = Inr [1, 2]"
    "querySelectorAll example_document ''.y'' = Inr []"
    by (simp_all add: example_document_def)
  show ?thesis
    using answers
      lookups_copy_collection [where d = example_document and c = "''x''" and t = "''div''"
        and sel = "''.x''"]
      lookups_copy_collection [where d = example_document and c = "''y''" and sel = "''.y''"]
    by simp
qed

text \<open>
  C3. After \<open>show\<close> the getter \<open>visible\<close> answers true, after \<open>hide\<close> it answers false;
  \<open>visible\<close> with the argument \<open>true\<close> writes the display value \<open>block\<close> and answers true;
  without a second argument it writes nothing and answers true exactly when the inline
  display value differs from \<open>none\<close>.
\<close>

theorem visible_show_hide:
  "fst (visible (show_el el) None) = True
   \<and> fst (visible (hide el) None) = False
   \<and> visible el (Some (JBool True)) = (True, el\<lparr>style_display := ''block''\<rparr>)
   \<and> fst (visible el None) = (style_display el \<noteq> ''none'')
   \<and> snd (visible el None) = el"
  by (simp add: visible_def show_el_def hide_def)

text \<open>
  C4. For a defined value \<open>v\<close> on which \<^verbatim>\<open>String\<close> returns a string, \<open>text\<close> returns that
  string and sets the text content to it, and the \<open>text\<close> call without a second argument
  that follows returns it. \<^verbatim>\<open>String\<close> returns on null, the booleans, the safe integers, the
  BigInts and the strings; for the number 42 the string is \<open>42\<close>. When \<^verbatim>\<open>String\<close> throws,
  \<open>text\<close> raises that exception and the text content is not written.
\<close>

theorem text_stringifies_and_reads_back:
  "(js_String v el = (Inr s, el') \<longrightarrow>
      fst (text_el el (Some v)) = Inr s
      \<and> textContent (snd (text_el el (Some v))) = s
      \<and> fst (text_el (snd (text_el el (Some v))) None) = Inr s)
   \<and> (js_String v el = (Inl ex, el') \<longrightarrow> text_el el (Some v) = (Inl ex, el'))
   \<and> ((\<forall>kind convert. v \<noteq> JOther kind convert) \<longrightarrow> (\<exists>t. js_String v el = (Inr t, el)))
   \<and> js_String number_42 el = (Inr ''42'', el)
   \<and> fst (text_el el (Some number_42)) = Inr ''42''
   \<and> textContent (snd (text_el el (Some number_42))) = ''42''
   \<and> fst (text_el (snd (text_el el (Some number_42))) None) = Inr ''42''"
proof -
  have returns: "js_String v el = (Inr s, el') \<longrightarrow>
      fst (text_el el (Some v)) = Inr s
      \<and> textContent (snd (text_el el (Some v))) = s
      \<and> fst (text_el (snd (text_el el (Some v))) None) = Inr s" for v s el'
    by (simp add: text_el_returns text_el_read)
  have raises: "js_String v el = (Inl ex, el') \<longrightarrow> text_el el (Some v) = (Inl ex, el')"
    by (simp add: text_el_raises)
  have primitive:
    "(\<forall>kind convert. v \<noteq> JOther kind convert) \<longrightarrow> (\<exists>t. js_String v el = (Inr t, el))"
    using js_String_primitive [of v el] by blast
  have forty_two: "js_String number_42 el = (Inr ''42'', el)"
    by (rule js_String_number_42)
  from returns [of number_42 "''42''" el] forty_two
  have run: "fst (text_el el (Some number_42)) = Inr ''42''"
    "textContent (snd (text_el el (Some number_42))) = ''42''"
    "fst (text_el (snd (text_el el (Some number_42))) None) = Inr ''42''"
    by simp_all
  from returns [of v s el'] raises primitive forty_two run
  show ?thesis by (intro conjI)
qed

text \<open>
  On the text input: with \<open>2^69\<close>, a number that is no safe integer; with an object whose
  conversion throws; and with null.
\<close>

theorem text_stringifies_and_reads_back_witness:
  "js_String number_2_pow_69 example_input = (Inr ''590295810358705700000'', example_input)
   \<and> fst (text_el example_input (Some number_2_pow_69)) = Inr ''590295810358705700000''
   \<and> textContent (snd (text_el example_input (Some number_2_pow_69)))
       = ''590295810358705700000''
   \<and> fst (text_el (snd (text_el example_input (Some number_2_pow_69))) None)
       = Inr ''590295810358705700000''
   \<and> js_String throwing_object example_input = (Inl (Thrown ''no''), example_input)
   \<and> text_el example_input (Some throwing_object) = (Inl (Thrown ''no''), example_input)
   \<and> (\<forall>kind convert. JNull \<noteq> JOther kind convert)
   \<and> (\<exists>t. js_String JNull example_input = (Inr t, example_input))
   \<and> fst (text_el example_input (Some number_42)) = Inr ''42''"
proof -
  have conversions:
    "js_String number_2_pow_69 example_input = (Inr ''590295810358705700000'', example_input)"
    "js_String throwing_object example_input = (Inl (Thrown ''no''), example_input)"
    by (simp_all add: number_2_pow_69_def throwing_object_def)
  have null_value: "\<forall>kind convert. JNull \<noteq> JOther kind convert"
    by simp
  show ?thesis
    using conversions null_value
      text_stringifies_and_reads_back [where v = number_2_pow_69 and el = example_input
        and s = "''590295810358705700000''" and el' = example_input]
      text_stringifies_and_reads_back [where v = throwing_object and el = example_input
        and ex = "Thrown ''no''" and el' = example_input]
      text_stringifies_and_reads_back [where v = JNull and el = example_input]
    by simp
qed

text \<open>
  Not every value that is not a string is written. On \<^verbatim>\<open>Object.create(null)\<close> the
  conversion throws a \<^verbatim>\<open>TypeError\<close> and \<open>text\<close> raises it; and \<^verbatim>\<open>undefined\<close>, passed as the
  second argument, is the omitted argument: \<open>text\<close> reads, and the text content does not
  become \<open>undefined\<close>.
\<close>

theorem text_conversion_counterexample:
  "text_el example_input (Some null_prototype_object) = (Inl TypeError, example_input)
   \<and> text_el example_input None = (Inr [], example_input)
   \<and> textContent example_input \<noteq> ''undefined''"
  by (simp add: text_el_def null_prototype_object_def example_input_def)

text \<open>
  C5. \<open>attribute\<close> without a value returns the empty string when the attribute is not set,
  and leaves the element alone. After \<open>attribute\<close> has set a string \<open>v\<close> under a name that
  \<^verbatim>\<open>setAttribute\<close> accepts, it returns \<open>v\<close>, at once and on the read that follows. Under a
  name that \<^verbatim>\<open>setAttribute\<close> rejects, the call raises \<^verbatim>\<open>InvalidCharacterError\<close> and sets
  nothing.
\<close>

theorem attribute_absent_and_round_trip:
  "(getAttribute el name = None \<longrightarrow> attribute el name None = (Inr [], el))
   \<and> (attribute_name_ok el name \<longrightarrow>
        fst (attribute el name (Some (JStr v))) = Inr v
        \<and> fst (attribute (snd (attribute el name (Some (JStr v)))) name None) = Inr v)
   \<and> (\<not> attribute_name_ok el name \<longrightarrow>
        attribute el name (Some (JStr v)) = (Inl (DOMException InvalidCharacterError), el))"
proof -
  have absent: "getAttribute el name = None \<longrightarrow> attribute el name None = (Inr [], el)"
    by (simp add: attribute_read)
  have accepted: "attribute_name_ok el name \<longrightarrow>
        fst (attribute el name (Some (JStr v))) = Inr v
        \<and> fst (attribute (snd (attribute el name (Some (JStr v)))) name None) = Inr v"
    by (simp add: attribute_result_accepted attribute_read_after_accepted)
  have rejected: "\<not> attribute_name_ok el name \<longrightarrow>
        attribute el name (Some (JStr v)) = (Inl (DOMException InvalidCharacterError), el)"
    by (simp add: attribute_rejected)
  from absent accepted rejected show ?thesis by (intro conjI)
qed

text \<open>
  On the text input: \<open>data-y\<close>, which it does not have; \<open>Data-X\<close>, which is read back under
  its lower-case name; and a name with a space.
\<close>

theorem attribute_absent_and_round_trip_witness:
  "getAttribute example_input ''data-y'' = None
   \<and> attribute example_input ''data-y'' None = (Inr [], example_input)
   \<and> attribute_name_ok example_input ''data-y''
   \<and> fst (attribute example_input ''data-y'' (Some (JStr ''v''))) = Inr ''v''
   \<and> fst (attribute (snd (attribute example_input ''data-y'' (Some (JStr ''v''))))
        ''data-y'' None) = Inr ''v''
   \<and> attribute_name_ok example_input ''Data-X''
   \<and> fst (attribute (snd (attribute example_input ''Data-X'' (Some (JStr ''2''))))
        ''data-x'' None) = Inr ''2''
   \<and> \<not> attribute_name_ok example_input ''a b''
   \<and> attribute example_input ''a b'' (Some (JStr ''v''))
       = (Inl (DOMException InvalidCharacterError), example_input)"
proof -
  have absent: "getAttribute example_input ''data-y'' = None"
    by (simp add: getAttribute_def example_input_def name_ok_examples)
  have names: "attribute_name_ok example_input ''data-y''"
    "attribute_name_ok example_input ''Data-X''"
    "\<not> attribute_name_ok example_input ''a b''"
    by (simp_all add: example_input_def valid_attribute_local_name_def ascii_whitespace_def)
  have upper: "fst (attribute (snd (attribute example_input ''Data-X'' (Some (JStr ''2''))))
        ''data-x'' None) = Inr ''2''"
    using names(2) by (simp add: attribute_accepted attribute_read getAttribute_def
        name_ok_examples)
  show ?thesis
    using absent names upper
      attribute_absent_and_round_trip [where el = example_input and name = "''data-y''"
        and v = "''v''"]
      attribute_absent_and_round_trip [where el = example_input and name = "''a b''"
        and v = "''v''"]
    by simp
qed

text \<open>
  The empty string is a name \<^verbatim>\<open>setAttribute\<close> rejects: the call that should set \<open>v\<close>
  raises, and the read that follows returns the empty string and not \<open>v\<close>.
\<close>

theorem attribute_invalid_name_counterexample:
  "attribute example_input [] (Some (JStr ''v''))
     = (Inl (DOMException InvalidCharacterError), example_input)
   \<and> fst (attribute example_input [] None) = Inr []"
  using name_ok_examples(2)
  by (simp add: attribute_rejected attribute_read getAttribute_def example_input_def
      ascii_lower_def)

text \<open>
  C6. For a class name that is a valid token (not empty, no ASCII whitespace),
  \<open>toggleClass\<close> adds the class when the element does not have it and removes it when it
  does, and two calls in a row give back the class membership the element had. (The class
  list is ordered: a class that was present comes back at the end of the list.) On any
  other string the class list raises and is left as it was.
\<close>

theorem toggleClass_round_trip:
  "(valid_token c \<longrightarrow>
      fst (toggleClass el c) = Inr ()
      \<and> classList_contains (snd (toggleClass el c)) c = (\<not> classList_contains el c)
      \<and> fst (toggleClass (snd (toggleClass el c)) c) = Inr ()
      \<and> (\<forall>c'. classList_contains (snd (toggleClass (snd (toggleClass el c)) c)) c'
             = classList_contains el c')
      \<and> set (classList (snd (toggleClass (snd (toggleClass el c)) c))) = set (classList el))
   \<and> (token_error c = Some e \<longrightarrow> toggleClass el c = (Inl (DOMException e), el))"
proof -
  have rejected: "token_error c = Some e \<longrightarrow> toggleClass el c = (Inl (DOMException e), el)"
    by (simp add: toggleClass_rejected)
  have accepted: "fst (toggleClass el c) = Inr ()
      \<and> classList_contains (snd (toggleClass el c)) c = (\<not> classList_contains el c)
      \<and> fst (toggleClass (snd (toggleClass el c)) c) = Inr ()
      \<and> (\<forall>c'. classList_contains (snd (toggleClass (snd (toggleClass el c)) c)) c'
             = classList_contains el c')
      \<and> set (classList (snd (toggleClass (snd (toggleClass el c)) c))) = set (classList el)"
    if "valid_token c"
    using that by (auto simp: toggleClass_valid classList_contains_def)
  from accepted rejected show ?thesis by blast
qed

text \<open>
  On the text input, whose class list is \<open>a b\<close>: the first call removes \<open>a\<close>, the second
  adds it at the end; and with a name that has a space.
\<close>

theorem toggleClass_round_trip_witness:
  "valid_token ''a''
   \<and> fst (toggleClass example_input ''a'') = Inr ()
   \<and> classList (snd (toggleClass example_input ''a'')) = [''b'']
   \<and> classList (snd (toggleClass (snd (toggleClass example_input ''a'')) ''a'')) = [''b'', ''a'']
   \<and> set (classList (snd (toggleClass (snd (toggleClass example_input ''a'')) ''a'')))
       = set (classList example_input)
   \<and> token_error ''a b'' = Some InvalidCharacterError
   \<and> toggleClass example_input ''a b'' = (Inl (DOMException InvalidCharacterError), example_input)"
proof -
  have lists: "classList (snd (toggleClass example_input ''a'')) = [''b'']"
    "classList (snd (toggleClass (snd (toggleClass example_input ''a'')) ''a'')) = [''b'', ''a'']"
    by (simp_all add: toggleClass_valid valid_token_a example_input_def)
  show ?thesis
    using valid_token_a(1) token_error_examples(2) lists
      toggleClass_round_trip [where c = "''a''" and el = example_input]
      toggleClass_round_trip [where c = "''a b''" and e = InvalidCharacterError
        and el = example_input]
    by simp
qed

text \<open>
  The element does not have the empty class name, and \<open>toggleClass\<close> does not add it: the
  call raises \<^verbatim>\<open>SyntaxError\<close>.
\<close>

theorem toggleClass_empty_name_counterexample:
  "\<not> classList_contains example_input []
   \<and> toggleClass example_input [] = (Inl (DOMException SyntaxError), example_input)
   \<and> \<not> classList_contains (snd (toggleClass example_input [])) []"
  using token_error_examples(1)
  by (simp add: toggleClass_rejected) (simp add: classList_contains_def example_input_def)

text \<open>
  C7. For two class names that are valid tokens, \<open>swapClass\<close> leaves the element with the
  new class and, when the two names differ, without the old one, whether or not the old
  one was there. The old class is removed first and the new one added after that: the
  classes are those of the element less the old one, plus the new one, so that with the
  same name twice the class is there after the call; and when the class list rejects the
  new name, the call raises with the old class already removed. When it rejects the old
  name, the call raises and nothing has changed.
\<close>

theorem swapClass_distinct_names:
  "(valid_token old \<and> valid_token new \<longrightarrow>
      fst (swapClass el old new) = Inr ()
      \<and> classList_contains (snd (swapClass el old new)) new
      \<and> (old \<noteq> new \<longrightarrow> \<not> classList_contains (snd (swapClass el old new)) old)
      \<and> set (classList (snd (swapClass el old new))) = insert new (set (classList el) - {old}))
   \<and> (valid_token old \<and> token_error new = Some e \<longrightarrow>
      fst (swapClass el old new) = Inl (DOMException e)
      \<and> classList (snd (swapClass el old new)) = removeAll old (classList el))
   \<and> (token_error old = Some e \<longrightarrow> swapClass el old new = (Inl (DOMException e), el))"
proof -
  have accepted: "fst (swapClass el old new) = Inr ()
      \<and> classList_contains (snd (swapClass el old new)) new
      \<and> (old \<noteq> new \<longrightarrow> \<not> classList_contains (snd (swapClass el old new)) old)
      \<and> set (classList (snd (swapClass el old new))) = insert new (set (classList el) - {old})"
    if "valid_token old" "valid_token new"
    using that by (auto simp: swapClass_valid classList_contains_def)
  have new_rejected: "fst (swapClass el old new) = Inl (DOMException e)
      \<and> classList (snd (swapClass el old new)) = removeAll old (classList el)"
    if "valid_token old" "token_error new = Some e"
    using that by (simp add: swapClass_new_rejected)
  have old_rejected: "token_error old = Some e \<longrightarrow> swapClass el old new = (Inl (DOMException e), el)"
    by (simp add: swapClass_old_rejected)
  from accepted new_rejected old_rejected show ?thesis by blast
qed

text \<open>
  On the text input: swapping its class \<open>a\<close> for \<open>c\<close>, \<open>c\<close> for \<open>c\<close>, \<open>a\<close> for the empty
  name and the empty name for \<open>c\<close>.
\<close>

theorem swapClass_distinct_names_witness:
  "valid_token ''a'' \<and> valid_token ''c'' \<and> ''a'' \<noteq> ''c''
   \<and> fst (swapClass example_input ''a'' ''c'') = Inr ()
   \<and> \<not> classList_contains (snd (swapClass example_input ''a'' ''c'')) ''a''
   \<and> classList_contains (snd (swapClass example_input ''a'' ''c'')) ''c''
   \<and> classList_contains (snd (swapClass example_input ''c'' ''c'')) ''c''
   \<and> token_error [] = Some SyntaxError
   \<and> fst (swapClass example_input ''a'' []) = Inl (DOMException SyntaxError)
   \<and> classList (snd (swapClass example_input ''a'' [])) = [''b'']
   \<and> swapClass example_input [] ''c'' = (Inl (DOMException SyntaxError), example_input)"
proof -
  have distinct_names: "''a'' \<noteq> ''c''"
    by simp
  have before: "classList example_input = [''a'', ''b'']"
    by (simp add: example_input_def)
  show ?thesis
    using valid_token_a token_error_examples(1) distinct_names before
      swapClass_distinct_names [where old = "''a''" and new = "''c''" and el = example_input]
      swapClass_distinct_names [where old = "''c''" and new = "''c''" and el = example_input]
      swapClass_distinct_names [where old = "''a''" and new = "[]" and el = example_input
        and e = SyntaxError]
      swapClass_distinct_names [where old = "[]" and new = "''c''" and el = example_input
        and e = SyntaxError]
    by simp
qed

text \<open>
  When both names are the same class, the class removed first is added again, and the
  element has it after the call. When the new name is the empty string, the call raises
  after the removal, and the element has neither class.
\<close>

theorem swapClass_same_name_counterexample:
  "fst (swapClass example_input ''a'' ''a'') = Inr ()
   \<and> classList_contains (snd (swapClass example_input ''a'' ''a'')) ''a''
   \<and> fst (swapClass example_input ''a'' []) = Inl (DOMException SyntaxError)
   \<and> \<not> classList_contains (snd (swapClass example_input ''a'' [])) []
   \<and> \<not> classList_contains (snd (swapClass example_input ''a'' [])) ''a''"
  using valid_token_a(1) token_error_examples(1)
  by (simp add: swapClass_valid swapClass_new_rejected classList_contains_def example_input_def)

text \<open>
  C8. \<open>gebid\<close>, \<open>gebcn\<close>, \<open>gebtn\<close> and \<open>child\<close> return a value on every input: \<open>gebid\<close> the
  platform's answer (\<open>None\<close> for an absent id), the two sequence lookups the empty array
  exactly when nothing matches, \<open>child\<close> the node at the index and \<open>None\<close> exactly for an
  index that is negative or not below the number of children. \<open>qs\<close> and \<open>qsAll\<close> return
  what the platform's selector lookup returns on the search root (the document by
  default), the exception it raises included; when it raises nothing, an absent match is
  \<open>None\<close> or the empty array.
\<close>

theorem locators_results:
  "gebid d ident = getElementById d ident
   \<and> (gebcn d c = []) = (getElementsByClassName d c = [])
   \<and> (gebtn d t = []) = (getElementsByTagName d t = [])
   \<and> (child el i = None) = (i < 0 \<or> int (length (children el)) \<le> i)
   \<and> (0 \<le> i \<and> i < int (length (children el)) \<longrightarrow> child el i = Some (children el ! nat i))
   \<and> qs d sel None = querySelector d sel
   \<and> qs d sel (Some p) = querySelector p sel
   \<and> qsAll d sel None =
       (case querySelectorAll d sel of Inl e \<Rightarrow> Inl e | Inr nodes \<Rightarrow> Inr (map Some nodes))
   \<and> qsAll d sel (Some p) =
       (case querySelectorAll p sel of Inl e \<Rightarrow> Inl e | Inr nodes \<Rightarrow> Inr (map Some nodes))"
  by (simp add: gebid_def gebcn_eq gebtn_eq child_None_iff child_in_range qs_def
      qsAll_document_eq qsAll_parent_eq)

text \<open>
  On the select, whose children are the nodes 1 and 2, and on the example document.
\<close>

theorem locators_results_witness:
  "(0::int) \<le> 1 \<and> 1 < int (length (children example_select))
   \<and> child example_select 1 = Some 2
   \<and> child example_select 2 = None
   \<and> child example_select (- 1) = None
   \<and> gebid example_document ''missing'' = None
   \<and> gebcn example_document ''y'' = []
   \<and> qs example_document ''.y'' None = Inr None
   \<and> qsAll example_document ''.y'' None = Inr []
   \<and> qsAll example_document ''.x'' None = Inr [Some 1, Some 2]"
proof -
  have kids: "children example_select = [1, 2]"
    by (simp add: example_select_def)
  have answers: "getElementById example_document ''missing'' = None"
    "getElementsByClassName example_document ''y'' = []"
    "querySelector example_document ''.y'' = Inr None"
    "querySelectorAll example_document ''.y'' = Inr []"
    "querySelectorAll example_document ''.x'' = Inr [1, 2]"
    by (simp_all add: example_document_def)
  have out_of_range: "child example_select 2 = None" "child example_select (- 1) = None"
    using locators_results [where el = example_select and i = 2]
      locators_results [where el = example_select and i = "- 1"] kids by simp_all
  show ?thesis
    using kids answers out_of_range
      locators_results [where d = example_document and ident = "''missing''" and c = "''y''"
        and el = example_select and i = 1 and sel = "''.y''"]
      locators_results [where d = example_document and sel = "''.x''"]
    by simp
qed

text \<open>
  The empty string is not a selector: on it, the selector lookups of the example document
  raise, and \<open>qs\<close> and \<open>qsAll\<close> raise with them.
\<close>

theorem qs_invalid_selector_counterexample:
  "qs example_document [] None = Inl SyntaxError
   \<and> qsAll example_document [] None = Inl SyntaxError"
  by (simp add: qs_def qsAll_def example_document_def)

text \<open>
  C9. \<open>innerHtml\<close> with a supplied argument that is not a string is a pure read: it returns
  the current markup and the element is unchanged, and \<^verbatim>\<open>String\<close> is not run on the
  argument. \<open>text\<close> and \<open>value\<close> run \<^verbatim>\<open>String\<close> on the same argument: when it returns a
  string, \<open>text\<close> writes it and \<open>value\<close> hands it to the control's setter, which stores
  what it makes of it or raises; when \<^verbatim>\<open>String\<close> throws, both raise and write nothing.
\<close>

theorem innerHtml_non_string_is_read:
  "typeof (Some x) \<noteq> ''string'' \<Longrightarrow>
     innerHtml el (Some x) = (Inr (innerHTML el), el)
     \<and> (js_String x el = (Inr s, el') \<longrightarrow>
          fst (text_el el (Some x)) = Inr s
          \<and> textContent (snd (text_el el (Some x))) = s)
     \<and> (js_String x el = (Inr s, el') \<and> value_setter el' s = Inr stored \<longrightarrow>
          fst (value_el el (Some x)) = Inr s
          \<and> value_prop (snd (value_el el (Some x))) = stored)
     \<and> (js_String x el = (Inr s, el') \<and> value_setter el' s = Inl d \<longrightarrow>
          value_el el (Some x) = (Inl (DOMException d), el'))
     \<and> (js_String x el = (Inl ex, el') \<longrightarrow>
          text_el el (Some x) = (Inl ex, el') \<and> value_el el (Some x) = (Inl ex, el'))"
  by (simp add: innerHtml_other text_el_returns text_el_raises value_el_returns
      value_el_setter_raises value_el_raises)

text \<open>
  On the text input, with the boolean \<open>true\<close> and with an object that has no conversion.
\<close>

theorem innerHtml_non_string_is_read_witness:
  "typeof (Some (JBool True)) \<noteq> ''string''
   \<and> innerHtml example_input (Some (JBool True)) = (Inr (innerHTML example_input), example_input)
   \<and> js_String (JBool True) example_input = (Inr ''true'', example_input)
   \<and> value_setter example_input ''true'' = Inr ''true''
   \<and> fst (text_el example_input (Some (JBool True))) = Inr ''true''
   \<and> textContent (snd (text_el example_input (Some (JBool True)))) = ''true''
   \<and> fst (value_el example_input (Some (JBool True))) = Inr ''true''
   \<and> value_prop (snd (value_el example_input (Some (JBool True)))) = ''true''
   \<and> typeof (Some null_prototype_object) \<noteq> ''string''
   \<and> innerHtml example_input (Some null_prototype_object)
       = (Inr (innerHTML example_input), example_input)"
proof -
  have not_string: "typeof (Some (JBool True)) \<noteq> ''string''"
    "typeof (Some null_prototype_object) \<noteq> ''string''"
    by (simp_all add: null_prototype_object_def)
  have conversion: "js_String (JBool True) example_input = (Inr ''true'', example_input)"
    by simp
  have sanitized: "value_setter example_input ''true'' = Inr ''true''"
    by (simp add: example_input_def)
  show ?thesis
    using not_string conversion sanitized
      innerHtml_non_string_is_read [OF not_string(1), where el = example_input
        and s = "''true''" and el' = example_input and stored = "''true''"]
      innerHtml_non_string_is_read [OF not_string(2), where el = example_input]
    by simp
qed

text \<open>
  \<open>text\<close> and \<open>value\<close> do not write every argument that is not a string: on an object
  whose conversion throws both raise, and on the file input \<open>value\<close> with the number 42
  raises the \<^verbatim>\<open>InvalidStateError\<close> of the control's setter.
\<close>

theorem text_value_conversion_counterexample:
  "typeof (Some throwing_object) \<noteq> ''string''
   \<and> text_el example_input (Some throwing_object) = (Inl (Thrown ''no''), example_input)
   \<and> value_el example_input (Some throwing_object) = (Inl (Thrown ''no''), example_input)
   \<and> typeof (Some number_42) \<noteq> ''string''
   \<and> value_el example_file_input (Some number_42)
       = (Inl (DOMException InvalidStateError), example_file_input)"
proof -
  have thrown: "js_String throwing_object example_input = (Inl (Thrown ''no''), example_input)"
    by (simp add: throwing_object_def)
  have refused: "value_setter example_file_input ''42'' = Inl InvalidStateError"
    by (simp add: example_file_input_def)
  have kinds: "typeof (Some throwing_object) \<noteq> ''string''"
    "typeof (Some number_42) \<noteq> ''string''"
    by (simp_all add: throwing_object_def number_42_def)
  show ?thesis
    using kinds text_el_raises [OF thrown] value_el_raises [OF thrown]
      value_el_setter_raises [OF js_String_number_42 refused]
    by simp
qed

text \<open>
  C10. With a boolean second argument, \<open>visible\<close> writes the display value of that boolean,
  \<open>block\<close> for true and \<open>none\<close> for false, and answers the boolean; the read that follows
  answers it again and writes nothing.
\<close>

theorem visible_returns_argument:
  "fst (visible el (Some (JBool b))) = b
   \<and> style_display (snd (visible el (Some (JBool b)))) = (if b then ''block'' else ''none'')
   \<and> fst (visible (snd (visible el (Some (JBool b)))) None) = b
   \<and> snd (visible (snd (visible el (Some (JBool b)))) None) = snd (visible el (Some (JBool b)))"
  by (cases b) (simp_all add: visible_def)

text \<open>
  On the text input, which is not hidden before the call with false; and showing it after
  \<open>hide\<close>.
\<close>

theorem visible_returns_argument_witness:
  "fst (visible example_input (Some (JBool False))) = False
   \<and> style_display example_input \<noteq> ''none''
   \<and> style_display (snd (visible example_input (Some (JBool False)))) = ''none''
   \<and> fst (visible (snd (visible example_input (Some (JBool False)))) None) = False
   \<and> style_display (snd (visible (hide example_input) (Some (JBool True)))) = ''block''
   \<and> fst (visible (hide example_input) (Some (JBool True))) = True"
proof -
  have before: "style_display example_input \<noteq> ''none''"
    by (simp add: example_input_def)
  show ?thesis
    using before
      visible_returns_argument [where el = example_input and b = False]
      visible_returns_argument [where el = "hide example_input" and b = True]
    by simp
qed

end
